theory Spec2Isabelle
  imports Main
begin

section \<open>PrivacyX: the request handlers of main.py\<close>

text \<open>
  The program is one FastAPI module, \<^verbatim>\<open>main.py\<close>. It keeps two module-level
  dictionaries (\<^verbatim>\<open>VALID_USERS\<close> and \<^verbatim>\<open>sessions\<close>) and serves the routes
  \<^verbatim>\<open>/login\<close>, \<^verbatim>\<open>/signup\<close>, \<^verbatim>\<open>/logout\<close>, \<^verbatim>\<open>/home\<close> and \<^verbatim>\<open>/ask\<close>.
  Each handler is embedded as a function of the same name. The two dictionaries are the
  fields of a record that a mutating handler returns updated. A raised exception is the
  left summand of the handler's result. The three collaborators the module only calls
  (the sentence encoder, the Qdrant client and the Gemini model) are functions handed to
  the handler, and the handler returns, beside its result, the list of the calls it made
  to them, in order.

  A Python \<^verbatim>\<open>str\<close> is a \<^typ>\<open>string\<close>; a character outside ASCII is written as
  the bytes of its UTF-8 encoding. A handler is a function of the arguments it is called
  with; for /ask the binding of the form field that \<^verbatim>\<open>Form(...)\<close> declares, which runs
  before the handler, is a definition of its own (\<open>ask_request\<close>).
\<close>

subsection \<open>Python values\<close>

text \<open>An exception that a collaborator raises, with the text \<^verbatim>\<open>str(e)\<close> gives.\<close>

datatype exn = Exception string

primrec str_of :: "exn \<Rightarrow> string" where
  "str_of (Exception msg) = msg"

text \<open>
  How a request ends when it does not end in a response: \<^verbatim>\<open>HTTPException\<close> with its
  status code and detail; the validation error of the form binding, with the names of
  the required fields it misses; an exception of a collaborator that no handler catches;
  the \<^verbatim>\<open>UnicodeEncodeError\<close> that \<^verbatim>\<open>set_cookie\<close> raises, which nothing catches.
\<close>

datatype failure =
  HTTPException nat string
| RequestValidationError "string list"
| Unhandled exn
| UnicodeEncodeError

text \<open>\<^verbatim>\<open>str(i)\<close> for a non-negative integer: its decimal digits.\<close>

fun str_nat :: "nat \<Rightarrow> string" where
  "str_nat n =
     (if n < 10 then [''0123456789'' ! n]
      else str_nat (n div 10) @ [''0123456789'' ! (n mod 10)])"

declare str_nat.simps [simp del]

text \<open>\<^verbatim>\<open>sep.join(xs)\<close>.\<close>

fun join :: "string \<Rightarrow> string list \<Rightarrow> string" where
  "join sep [] = []"
| "join sep [x] = x"
| "join sep (x # y # ys) = x @ sep @ join sep (y # ys)"

text \<open>
  \<^verbatim>\<open>s.strip()\<close>: leading and trailing whitespace removed. The whitespace characters
  of Python, each as the bytes of its UTF-8 encoding: U+0009 to U+000D, U+001C to U+001F,
  U+0020, U+0085, U+00A0, U+1680, U+2000 to U+200A, U+2028, U+2029, U+202F, U+205F and
  U+3000. In a well-formed UTF-8 string such a byte sequence at either end is that
  character.
\<close>

definition whitespace :: "string list" where
  "whitespace =
     [[CHR 0x09], [CHR 0x0A], [CHR 0x0B], [CHR 0x0C], [CHR 0x0D],
      [CHR 0x1C], [CHR 0x1D], [CHR 0x1E], [CHR 0x1F], [CHR 0x20],
      [CHR 0xC2, CHR 0x85], [CHR 0xC2, CHR 0xA0], [CHR 0xE1, CHR 0x9A, CHR 0x80],
      [CHR 0xE2, CHR 0x80, CHR 0x80], [CHR 0xE2, CHR 0x80, CHR 0x81],
      [CHR 0xE2, CHR 0x80, CHR 0x82], [CHR 0xE2, CHR 0x80, CHR 0x83],
      [CHR 0xE2, CHR 0x80, CHR 0x84], [CHR 0xE2, CHR 0x80, CHR 0x85],
      [CHR 0xE2, CHR 0x80, CHR 0x86], [CHR 0xE2, CHR 0x80, CHR 0x87],
      [CHR 0xE2, CHR 0x80, CHR 0x88], [CHR 0xE2, CHR 0x80, CHR 0x89],
      [CHR 0xE2, CHR 0x80, CHR 0x8A], [CHR 0xE2, CHR 0x80, CHR 0xA8],
      [CHR 0xE2, CHR 0x80, CHR 0xA9], [CHR 0xE2, CHR 0x80, CHR 0xAF],
      [CHR 0xE2, CHR 0x81, CHR 0x9F], [CHR 0xE3, CHR 0x80, CHR 0x80]]"

text \<open>
  \<open>strip_leading ws s\<close> removes from the front of \<open>s\<close> every sequence of \<open>ws\<close>, each
  of one, two or three bytes.
\<close>

fun strip_leading :: "string list \<Rightarrow> string \<Rightarrow> string" where
  "strip_leading ws [] = []"
| "strip_leading ws (c # s) =
     (if [c] \<in> set ws then strip_leading ws s
      else if take 2 (c # s) \<in> set ws then strip_leading ws (drop 1 s)
      else if take 3 (c # s) \<in> set ws then strip_leading ws (drop 2 s)
      else c # s)"

definition strip :: "string \<Rightarrow> string" where
  "strip s = rev (strip_leading (map rev whitespace) (rev (strip_leading whitespace s)))"

text \<open>\<^verbatim>\<open>d.get(k, default)\<close> on a dictionary.\<close>

definition dict_get :: "('k \<rightharpoonup> 'a) \<Rightarrow> 'k \<Rightarrow> 'a \<Rightarrow> 'a" where
  "dict_get d k dflt = (case d k of None \<Rightarrow> dflt | Some v \<Rightarrow> v)"

subsection \<open>Requests, responses and the module's state\<close>

text \<open>Of a request the handlers read only the cookies.\<close>

record request =
  cookies :: "string \<rightharpoonup> string"

datatype cookie_op = SetCookie string string | DeleteCookie string

datatype ctx_value = CtxRequest request | CtxNone | CtxStr string | CtxList "string list"

text \<open>
  \<^verbatim>\<open>TemplateResponse(name, ctx)\<close> carries the template's name and the dictionary it is
  rendered with (status 200, the default); \<^verbatim>\<open>RedirectResponse(url, status_code)\<close>
  carries the cookie operations applied to it before it is returned.
\<close>

datatype response =
  TemplateResponse string "(string \<times> ctx_value) list"
| RedirectResponse string nat "cookie_op list"

fun status_code :: "failure + response \<Rightarrow> nat" where
  "status_code (Inl (HTTPException code detail)) = code"
| "status_code (Inl (RequestValidationError missing)) = 422"
| "status_code (Inl (Unhandled e)) = 500"
| "status_code (Inl UnicodeEncodeError) = 500"
| "status_code (Inr (TemplateResponse name ctx)) = 200"
| "status_code (Inr (RedirectResponse url code cs)) = code"

text \<open>The cookie operations a client receives: those of the response, when there is one.\<close>

fun cookie_ops :: "failure + response \<Rightarrow> cookie_op list" where
  "cookie_ops (Inl err) = []"
| "cookie_ops (Inr (TemplateResponse name ctx)) = []"
| "cookie_ops (Inr (RedirectResponse url code cs)) = cs"

text \<open>
  \<^verbatim>\<open>response = RedirectResponse(url, status_code=302)\<close> followed by
  \<^verbatim>\<open>response.set_cookie(key, val)\<close>. \<^verbatim>\<open>set_cookie\<close> encodes the header in Latin-1: a
  value with a character above U+00FF raises \<^verbatim>\<open>UnicodeEncodeError\<close>. In UTF-8 such a
  character is one with a leading byte of 0xC4 or more; every other byte of a well-formed
  string is below 0xC4.
\<close>

definition latin1 :: "string \<Rightarrow> bool" where
  "latin1 s = list_all (\<lambda>c. (of_char c :: nat) < 0xC4) s"

definition redirect_with_cookie :: "string \<Rightarrow> string \<Rightarrow> string \<Rightarrow> failure + response" where
  "redirect_with_cookie url key val =
     (if latin1 val then Inr (RedirectResponse url 302 [SetCookie key val])
      else Inl UnicodeEncodeError)"

record app_state =
  VALID_USERS :: "string \<rightharpoonup> string"
  sessions :: "string \<rightharpoonup> bool"

definition initial_state :: app_state where
  "initial_state = \<lparr>VALID_USERS = [''admin'' \<mapsto> ''admin123''], sessions = Map.empty\<rparr>"

subsection \<open>Authentication, login, signup, logout\<close>

text \<open>
  \<^verbatim>\<open>not username\<close> holds of \<^verbatim>\<open>None\<close> and of the empty string. The second test of
  \<^verbatim>\<open>get_current_user\<close> is reached only with a non-empty string.
\<close>

definition get_current_user :: "app_state \<Rightarrow> request \<Rightarrow> failure + string" where
  "get_current_user st request =
     (case cookies request ''username'' of
        None \<Rightarrow> Inl (HTTPException 401 ''Not authenticated'')
      | Some username \<Rightarrow>
          if username = [] \<or> sessions st username = None
          then Inl (HTTPException 401 ''Not authenticated'')
          else Inr username)"

definition login_error :: string where
  "login_error =
     [CHR 0xE2, CHR 0x9D, CHR 0x8C] @ '' Invalid credentials. Please try again or sign up.''"

definition signup_error :: string where
  "signup_error =
     [CHR 0xE2, CHR 0x9A, CHR 0xA0, CHR 0xEF, CHR 0xB8, CHR 0x8F] @ '' Username already exists.''"

text \<open>
  In the accepting branch of \<^verbatim>\<open>login\<close> and of \<^verbatim>\<open>signup\<close> the dictionaries are written
  first and the cookie is set after: when \<^verbatim>\<open>set_cookie\<close> raises, the state returned is
  the written one.
\<close>

definition login ::
  "app_state \<Rightarrow> request \<Rightarrow> string \<Rightarrow> string \<Rightarrow> (failure + response) \<times> app_state" where
  "login st request username password =
     (if VALID_USERS st username \<noteq> None \<and> VALID_USERS st username = Some password then
        (redirect_with_cookie ''/home'' ''username'' username,
         st\<lparr>sessions := (sessions st)(username \<mapsto> True)\<rparr>)
      else
        (Inr (TemplateResponse ''login.html''
                [(''request'', CtxRequest request), (''error'', CtxStr login_error)]),
         st))"

definition signup ::
  "app_state \<Rightarrow> request \<Rightarrow> string \<Rightarrow> string \<Rightarrow> (failure + response) \<times> app_state" where
  "signup st request username password =
     (if VALID_USERS st username \<noteq> None then
        (Inr (TemplateResponse ''signup.html''
                [(''request'', CtxRequest request), (''error'', CtxStr signup_error)]),
         st)
      else
        (redirect_with_cookie ''/home'' ''username'' username,
         st\<lparr>VALID_USERS := (VALID_USERS st)(username \<mapsto> password),
            sessions := (sessions st)(username \<mapsto> True)\<rparr>))"

text \<open>
  \<^verbatim>\<open>sessions.pop(username, None)\<close>: with no cookie the key is \<^verbatim>\<open>None\<close>, which is
  never a key of \<^verbatim>\<open>sessions\<close>, and nothing is removed.
\<close>

definition logout :: "app_state \<Rightarrow> request \<Rightarrow> response \<times> app_state" where
  "logout st request =
     (RedirectResponse ''/'' 302 [DeleteCookie ''username''],
      (case cookies request ''username'' of
         None \<Rightarrow> st
       | Some username \<Rightarrow> st\<lparr>sessions := (sessions st)(username := None)\<rparr>))"

text \<open>
  \<^verbatim>\<open>home(request, user)\<close> is the handler; the route runs the dependency
  \<^verbatim>\<open>Depends(get_current_user)\<close> first and calls the handler only with its result.
\<close>

definition home :: "request \<Rightarrow> string \<Rightarrow> response" where
  "home request user =
     TemplateResponse ''home.html'' [(''request'', CtxRequest request), (''user'', CtxStr user)]"

definition home_route :: "app_state \<Rightarrow> request \<Rightarrow> failure + response" where
  "home_route st request =
     (case get_current_user st request of
        Inl err \<Rightarrow> Inl err
      | Inr user \<Rightarrow> Inr (home request user))"

subsection \<open>The collaborators of /ask\<close>

text \<open>
  A hit of \<^verbatim>\<open>qdrant.search\<close>: its payload and its score. The search is called with
  \<^verbatim>\<open>with_payload=True\<close> and the payload is read with \<^verbatim>\<open>.get\<close>: it is a dictionary. A
  payload value is the string its rendering in an f-string gives. The score is a float in the program;
  its type is left open here, and the rendering \<^verbatim>\<open>{r.score:.4f}\<close> is a function handed
  to the handler with the collaborators.
\<close>

datatype 's scored_point = ScoredPoint (payload: "string \<rightharpoonup> string") (score: 's)

text \<open>
  What the module calls and does not define, at the moment of one request:
  \<^item> \<open>encode q\<close> is \<^verbatim>\<open>embed_model.encode([q])[0]\<close>;
  \<^item> \<open>search c v k p\<close> is
    \<^verbatim>\<open>qdrant.search(collection_name=c, query_vector=v, limit=k, with_payload=p)\<close>;
  \<^item> \<open>generate_content p\<close> is \<^verbatim>\<open>gemini_model.generate_content(p).text\<close>, the call and
    the read of \<^verbatim>\<open>.text\<close> that stand together inside the \<^verbatim>\<open>try\<close>.
  Each returns a value or raises an exception (a subclass of \<^verbatim>\<open>Exception\<close>).
\<close>

record ('v, 's) collaborators =
  encode :: "string \<Rightarrow> exn + 'v"
  search :: "string \<Rightarrow> 'v \<Rightarrow> nat \<Rightarrow> bool \<Rightarrow> exn + 's scored_point list"
  generate_content :: "string \<Rightarrow> exn + string"
  format_4f :: "'s \<Rightarrow> string"

datatype 'v call =
  is_Encode: Encode string
| is_Search: Search string 'v nat bool
| is_GenerateContent: GenerateContent string

definition COLLECTION_NAME :: string where
  "COLLECTION_NAME = ''vdpo_documents''"

subsection \<open>The /ask handler\<close>

abbreviation NL :: char where
  "NL \<equiv> CHR 0x0A"

definition context_chunk :: "nat \<Rightarrow> 's scored_point \<Rightarrow> string" where
  "context_chunk i r = str_nat i @ ''. '' @ dict_get (payload r) ''text'' []"

definition source_line :: "('s \<Rightarrow> string) \<Rightarrow> 's scored_point \<Rightarrow> string" where
  "source_line fmt r =
     [CHR 0xF0, CHR 0x9F, CHR 0x93, CHR 0x84] @ '' '' @ dict_get (payload r) ''source'' []
       @ '' (score: '' @ fmt (score r) @ '')''"

text \<open>
  The loop \<^verbatim>\<open>for i, r in enumerate(results, 1)\<close>, with the two lists it appends to.
\<close>

fun collect ::
  "('s \<Rightarrow> string) \<Rightarrow> (nat \<times> 's scored_point) list \<Rightarrow> string list \<times> string list
     \<Rightarrow> string list \<times> string list" where
  "collect fmt [] acc = acc"
| "collect fmt ((i, r) # rest) (context_chunks, sources) =
     collect fmt rest (context_chunks @ [context_chunk i r], sources @ [source_line fmt r])"

definition render_results ::
  "('s \<Rightarrow> string) \<Rightarrow> 's scored_point list \<Rightarrow> string list \<times> string list" where
  "render_results fmt results = collect fmt (enumerate 1 results) ([], [])"

definition instructions :: string where
  "instructions =
     ''You are a Data Protection expert AI. Use the following document context to answer the user''
       @ [CHR 0x27] @ ''s question:''"

definition build_prompt :: "string \<Rightarrow> string list \<Rightarrow> string" where
  "build_prompt question context_chunks =
     instructions @ [NL, NL] @ ''CONTEXT:'' @ [NL] @ join [NL] context_chunks
       @ [NL, NL] @ ''QUESTION:'' @ [NL] @ question @ [NL, NL] @ ''ANSWER:''"

text \<open>
  The handler returns how the request ends and the calls it made. An exception of the
  encoder or of the search is not caught; one of the generation is.
\<close>

definition ask ::
  "('v, 's) collaborators \<Rightarrow> request \<Rightarrow> string \<Rightarrow> string \<Rightarrow> (failure + response) \<times> 'v call list" where
  "ask env request question user =
     (case encode env question of
        Inl e \<Rightarrow> (Inl (Unhandled e), [Encode question])
      | Inr query_vector \<Rightarrow>
          (case search env COLLECTION_NAME query_vector 5 True of
             Inl e \<Rightarrow>
               (Inl (Unhandled e), [Encode question, Search COLLECTION_NAME query_vector 5 True])
           | Inr results \<Rightarrow>
               (let (context_chunks, sources) = render_results (format_4f env) results;
                    prompt = build_prompt question context_chunks;
                    answer = (case generate_content env prompt of
                                Inr txt \<Rightarrow> strip txt
                              | Inl e \<Rightarrow> ''Error: '' @ str_of e)
                in (Inr (TemplateResponse ''home.html''
                           [(''request'', CtxRequest request), (''user'', CtxStr user),
                            (''question'', CtxStr question), (''answer'', CtxStr answer),
                            (''sources'', CtxList sources)]),
                    [Encode question, Search COLLECTION_NAME query_vector 5 True,
                     GenerateContent prompt]))))"

text \<open>
  The dependency \<^verbatim>\<open>Depends(get_current_user)\<close> and the handler, at a question that
  the form binding has handed on.
\<close>

definition ask_route ::
  "app_state \<Rightarrow> ('v, 's) collaborators \<Rightarrow> request \<Rightarrow> string \<Rightarrow> (failure + response) \<times> 'v call list" where
  "ask_route st env request question =
     (case get_current_user st request of
        Inl err \<Rightarrow> (Inl err, [])
      | Inr user \<Rightarrow> ask env request question user)"

text \<open>
  The route as a request reaches it. After the dependency, FastAPI binds the required
  form field \<^verbatim>\<open>question: str = Form(...)\<close>: a field that is missing ends the request in
  a validation error (status 422) and the handler is not called. Whether a field
  submitted with the empty string counts as missing differs between FastAPI releases, and
  the repository pins none: it is the parameter \<open>empty_is_missing\<close>. \<open>submitted\<close> is
  the value of the field in the form, if the form has one.
\<close>

definition bind_form :: "bool \<Rightarrow> string option \<Rightarrow> string option" where
  "bind_form empty_is_missing submitted =
     (case submitted of
        None \<Rightarrow> None
      | Some s \<Rightarrow> if s = [] \<and> empty_is_missing then None else Some s)"

definition ask_request ::
  "bool \<Rightarrow> app_state \<Rightarrow> ('v, 's) collaborators \<Rightarrow> request \<Rightarrow> string option
     \<Rightarrow> (failure + response) \<times> 'v call list" where
  "ask_request empty_is_missing st env request submitted =
     (case get_current_user st request of
        Inl err \<Rightarrow> (Inl err, [])
      | Inr user \<Rightarrow>
          (case bind_form empty_is_missing submitted of
             None \<Rightarrow> (Inl (RequestValidationError [''question'']), [])
           | Some question \<Rightarrow> ask env request question user))"

subsection \<open>The vector index\<close>

text \<open>
  Modelled from the spec: the search of the vector index, which \<^verbatim>\<open>main.py\<close> only calls
  (\<^verbatim>\<open>qdrant.search\<close>, a client of the Qdrant service; neither is in the sources).
  The spec's words (4.3 and the data model): \<^verbatim>\<open>search(vector, k)\<close> returns an ordered
  sequence of fragments of length at most \<open>k\<close>, ordered by descending similarity score,
  ties in the order the store returns them; each fragment carries the payload stored with
  it. The index is the list of the stored points, and the similarity of a query vector
  and a stored vector is a function into a linear order.
\<close>

record 'v stored_point =
  point_vector :: 'v
  point_payload :: "string \<rightharpoonup> string"

fun insert_desc :: "('s::linorder) scored_point \<Rightarrow> 's scored_point list \<Rightarrow> 's scored_point list" where
  "insert_desc x [] = [x]"
| "insert_desc x (y # ys) = (if score y \<le> score x then x # y # ys else y # insert_desc x ys)"

definition rank_desc :: "('s::linorder) scored_point list \<Rightarrow> 's scored_point list" where
  "rank_desc xs = foldr insert_desc xs []"

definition index_search ::
  "('v \<Rightarrow> 'v \<Rightarrow> 's::linorder) \<Rightarrow> 'v stored_point list \<Rightarrow> 'v \<Rightarrow> nat \<Rightarrow> 's scored_point list" where
  "index_search similarity index query_vector k =
     take k (rank_desc (map (\<lambda>p. ScoredPoint (point_payload p)
                                   (similarity query_vector (point_vector p))) index))"

text \<open>The collaborators with that index behind \<^verbatim>\<open>qdrant.search\<close>.\<close>

definition with_index ::
  "('v \<Rightarrow> 'v \<Rightarrow> 's::linorder) \<Rightarrow> 'v stored_point list \<Rightarrow> ('v, 's) collaborators
     \<Rightarrow> ('v, 's) collaborators" where
  "with_index similarity index env =
     env\<lparr>search := (\<lambda>collection_name query_vector limit with_payload.
                       Inr (index_search similarity index query_vector limit))\<rparr>"

definition non_increasing :: "('s::linorder) scored_point list \<Rightarrow> bool" where
  "non_increasing rs = sorted_wrt (\<lambda>a b. score b \<le> score a) rs"

subsection \<open>The invariant of the session registry\<close>

definition session_inv :: "app_state \<Rightarrow> bool" where
  "session_inv st \<longleftrightarrow> dom (sessions st) \<subseteq> dom (VALID_USERS st)"

subsection \<open>A sample run\<close>

text \<open>
  Concrete collaborators, to run the handlers on: the encoder returns a one-element
  vector for every text (the empty one too), the search returns two hits (the second
  without a source), the generation returns a text with whitespace around it. A score is
  a number of ten-thousandths.
\<close>

definition sample_results :: "nat scored_point list" where
  "sample_results =
     [ScoredPoint [''text'' \<mapsto> ''Consent must be freely given.'', ''source'' \<mapsto> ''gdpr.pdf''] 9100,
      ScoredPoint [''text'' \<mapsto> ''Records are kept for six years.''] 8700]"


definition sample_env :: "(nat list, nat) collaborators" where
  "sample_env =
     \<lparr>encode = (\<lambda>q. Inr [length q]),
      search = (\<lambda>collection_name query_vector limit with_payload. Inr sample_results),
      generate_content = (\<lambda>prompt. Inr ('' Consent is required.'' @ [NL])),
      format_4f = (\<lambda>s. ''0.'' @ str_nat s)\<rparr>"

text \<open>
  The same collaborators with the generation failing, with the index unreachable, and
  with an encoder that refuses the empty text.
\<close>

definition generation_down_env :: "(nat list, nat) collaborators" where
  "generation_down_env =
     sample_env\<lparr>generate_content := (\<lambda>prompt. Inl (Exception ''503 Service Unavailable''))\<rparr>"

definition index_down_env :: "(nat list, nat) collaborators" where
  "index_down_env =
     sample_env\<lparr>search := (\<lambda>collection_name query_vector limit with_payload.
                              Inl (Exception ''Connection refused''))\<rparr>"


definition sample_index :: "nat list stored_point list" where
  "sample_index =
     [\<lparr>point_vector = [80], point_payload = [''text'' \<mapsto> ''C'']\<rparr>,
      \<lparr>point_vector = [91], point_payload = [''text'' \<mapsto> ''A'']\<rparr>,
      \<lparr>point_vector = [87], point_payload = [''text'' \<mapsto> ''B'']\<rparr>]"

definition sample_similarity :: "nat list \<Rightarrow> nat list \<Rightarrow> nat" where
  "sample_similarity q p = sum_list p"

definition admin_request :: request where
  "admin_request = \<lparr>cookies = [''username'' \<mapsto> ''admin'']\<rparr>"

definition anonymous_request :: request where
  "anonymous_request = \<lparr>cookies = Map.empty\<rparr>"

definition admin_logged_in :: app_state where
  "admin_logged_in = snd (login initial_state anonymous_request ''admin'' ''admin123'')"

section \<open>Properties\<close>

subsection \<open>The handler's loop and its completed run\<close>

lemma collect_maps:
  "collect fmt irs (cc, ss) =
     (cc @ map (\<lambda>(i, r). context_chunk i r) irs, ss @ map (\<lambda>(i, r). source_line fmt r) irs)"
  by (induction irs arbitrary: cc ss) auto

lemma map_snd_part_enumerate: "map (\<lambda>(i, r). f r) (enumerate n xs) = map f xs"
  by (induction xs arbitrary: n) auto

lemma map_enumerate_nth:
  "map (\<lambda>(i, r). g i r) (enumerate n xs) = map (\<lambda>i. g (n + i) (xs ! i)) [0..<length xs]"
proof (rule nth_equalityI)
  show "length (map (\<lambda>(i, r). g i r) (enumerate n xs))
      = length (map (\<lambda>i. g (n + i) (xs ! i)) [0..<length xs])"
    by simp
next
  fix i
  assume "i < length (map (\<lambda>(i, r). g i r) (enumerate n xs))"
  then have "i < length xs" by simp
  then show "map (\<lambda>(i, r). g i r) (enumerate n xs) ! i
      = map (\<lambda>i. g (n + i) (xs ! i)) [0..<length xs] ! i"
    by (simp add: nth_enumerate_eq)
qed

lemma render_results_eq:
  "render_results fmt results =
     (map (\<lambda>i. context_chunk (Suc i) (results ! i)) [0..<length results],
      map (source_line fmt) results)"
  by (simp add: render_results_def collect_maps map_snd_part_enumerate map_enumerate_nth)


lemma ask_completed:
  assumes "encode env question = Inr v" and "search env COLLECTION_NAME v 5 True = Inr results"
  shows "ask env request question user =
     (Inr (TemplateResponse ''home.html''
             [(''request'', CtxRequest request), (''user'', CtxStr user),
              (''question'', CtxStr question),
              (''answer'', CtxStr
                 (case generate_content env
                         (build_prompt question (fst (render_results (format_4f env) results))) of
                    Inr txt \<Rightarrow> strip txt
                  | Inl e \<Rightarrow> ''Error: '' @ str_of e)),
              (''sources'', CtxList (map (source_line (format_4f env)) results))]),
      [Encode question, Search COLLECTION_NAME v 5 True,
       GenerateContent (build_prompt question (fst (render_results (format_4f env) results)))])"
  using assms by (simp add: ask_def render_results_eq Let_def)

subsection \<open>The sample run\<close>

lemma admin_logged_in_eq:
  "admin_logged_in = \<lparr>VALID_USERS = [''admin'' \<mapsto> ''admin123''], sessions = [''admin'' \<mapsto> True]\<rparr>"
  by (simp add: admin_logged_in_def login_def initial_state_def)

lemma admin_authenticated: "get_current_user admin_logged_in admin_request = Inr ''admin''"
  by (simp add: get_current_user_def admin_logged_in_eq admin_request_def)

lemma sample_sources:
  "map (source_line (format_4f sample_env)) sample_results =
     [[CHR 0xF0, CHR 0x9F, CHR 0x93, CHR 0x84] @ '' gdpr.pdf (score: 0.9100)'',
      [CHR 0xF0, CHR 0x9F, CHR 0x93, CHR 0x84] @ ''  (score: 0.8700)'']"
  by (simp add: sample_env_def sample_results_def source_line_def dict_get_def str_nat.simps)

subsection \<open>The /ask route\<close>

text \<open>
  C1. A question posted to /ask by a caller who is not authenticated (no \<^verbatim>\<open>username\<close>
  cookie, or a cookie whose value is empty or has no session) ends in
  \<^verbatim>\<open>HTTPException(401, "Not authenticated")\<close>, and the list of the calls made to the
  encoder, the vector search and the generation is empty. The route returns no state: it
  leaves both dictionaries alone.
\<close>

theorem ask_unauthenticated:
  assumes "cookies request ''username'' = None
           \<or> (\<exists>u. cookies request ''username'' = Some u \<and> (u = [] \<or> sessions st u = None))"
  shows "ask_route st env request question = (Inl (HTTPException 401 ''Not authenticated''), [])
         \<and> status_code (fst (ask_route st env request question)) = 401
         \<and> snd (ask_route st env request question) = []"
  using assms by (auto simp add: ask_route_def get_current_user_def)

theorem ask_unauthenticated_witness:
  "cookies anonymous_request ''username'' = None
   \<and> cookies admin_request ''username'' = Some ''admin''
   \<and> sessions initial_state ''admin'' = None
   \<and> ask_route initial_state sample_env anonymous_request ''What is consent?''
       = (Inl (HTTPException 401 ''Not authenticated''), [])
   \<and> ask_route initial_state sample_env admin_request ''What is consent?''
       = (Inl (HTTPException 401 ''Not authenticated''), [])"
proof -
  have a: "cookies anonymous_request ''username'' = None"
    by (simp add: anonymous_request_def)
  have b: "cookies admin_request ''username'' = Some ''admin''"
    by (simp add: admin_request_def)
  have c: "sessions initial_state ''admin'' = None"
    by (simp add: initial_state_def)
  from a have "cookies anonymous_request ''username'' = None
      \<or> (\<exists>u. cookies anonymous_request ''username'' = Some u \<and> (u = [] \<or> sessions initial_state u = None))" ..
  note r1 = ask_unauthenticated [OF this, of sample_env "''What is consent?''"]
  from b c have "cookies admin_request ''username'' = None
      \<or> (\<exists>u. cookies admin_request ''username'' = Some u \<and> (u = [] \<or> sessions initial_state u = None))"
    by simp
  note r2 = ask_unauthenticated [OF this, of sample_env "''What is consent?''"]
  show ?thesis using a b c r1 r2 by simp
qed

text \<open>
  C2. When the caller is authenticated, the encoder and the search return, and the
  generation raises \<open>e\<close>, the request ends in the home page (status 200) whose answer is
  \<^verbatim>\<open>"Error: "\<close> followed by \<^verbatim>\<open>str(e)\<close> and whose sources are the provenance lines of
  all the hits the search returned, in their order.
\<close>

theorem ask_generation_failure_recovered:
  assumes "get_current_user st request = Inr user"
    and "encode env question = Inr v"
    and "search env COLLECTION_NAME v 5 True = Inr results"
    and "generate_content env (build_prompt question (fst (render_results (format_4f env) results)))
           = Inl e"
  shows "ask_route st env request question =
           (Inr (TemplateResponse ''home.html''
                   [(''request'', CtxRequest request), (''user'', CtxStr user),
                    (''question'', CtxStr question),
                    (''answer'', CtxStr (''Error: '' @ str_of e)),
                    (''sources'', CtxList (map (source_line (format_4f env)) results))]),
            [Encode question, Search COLLECTION_NAME v 5 True,
             GenerateContent (build_prompt question (fst (render_results (format_4f env) results)))])
         \<and> status_code (fst (ask_route st env request question)) = 200"
  using assms by (simp add: ask_route_def ask_completed)

theorem ask_generation_failure_recovered_witness:
  "get_current_user admin_logged_in admin_request = Inr ''admin''
   \<and> encode generation_down_env ''What is consent?'' = Inr [16]
   \<and> search generation_down_env COLLECTION_NAME [16] 5 True = Inr sample_results
   \<and> generate_content generation_down_env
         (build_prompt ''What is consent?''
            (fst (render_results (format_4f generation_down_env) sample_results)))
       = Inl (Exception ''503 Service Unavailable'')
   \<and> fst (ask_route admin_logged_in generation_down_env admin_request ''What is consent?'') =
         Inr (TemplateResponse ''home.html''
                [(''request'', CtxRequest admin_request), (''user'', CtxStr ''admin''),
                 (''question'', CtxStr ''What is consent?''),
                 (''answer'', CtxStr ''Error: 503 Service Unavailable''),
                 (''sources'', CtxList
                    [[CHR 0xF0, CHR 0x9F, CHR 0x93, CHR 0x84] @ '' gdpr.pdf (score: 0.9100)'',
                     [CHR 0xF0, CHR 0x9F, CHR 0x93, CHR 0x84] @ ''  (score: 0.8700)''])])
   \<and> status_code (fst (ask_route admin_logged_in generation_down_env admin_request
                             ''What is consent?'')) = 200"
proof -
  have e: "encode generation_down_env ''What is consent?'' = Inr [16]"
    by (simp add: generation_down_env_def sample_env_def)
  have s: "search generation_down_env COLLECTION_NAME [16] 5 True = Inr sample_results"
    by (simp add: generation_down_env_def sample_env_def)
  have g: "generate_content generation_down_env
         (build_prompt ''What is consent?''
            (fst (render_results (format_4f generation_down_env) sample_results)))
       = Inl (Exception ''503 Service Unavailable'')"
    by (simp add: generation_down_env_def sample_env_def)
  have f: "format_4f generation_down_env = format_4f sample_env"
    by (simp add: generation_down_env_def sample_env_def)
  show ?thesis
    using ask_generation_failure_recovered [OF admin_authenticated e s g]
      admin_authenticated e s g
    by (simp add: f sample_sources)
qed

text \<open>
  C3. When the caller is authenticated, the encoder returns and the search raises \<open>e\<close>,
  the request ends in the exception \<open>e\<close>, uncaught (status 500), after the two calls and
  before any generation. It does not end in a response, whereas a search that returns no
  hit ends in the home page with an empty list of sources: the two cases differ.
\<close>

theorem ask_index_unreachable:
  fixes env :: "('v, 's) collaborators"
  assumes "get_current_user st request = Inr user"
    and "encode env question = Inr v"
    and "search env COLLECTION_NAME v 5 True = Inl e"
  shows "ask_route st env request question =
           (Inl (Unhandled e), [Encode question, Search COLLECTION_NAME v 5 True])
         \<and> status_code (fst (ask_route st env request question)) = 500
         \<and> (\<forall>response. fst (ask_route st env request question) \<noteq> Inr response)
         \<and> (\<forall>env' :: ('v, 's) collaborators. encode env' question = Inr v \<and> search env' COLLECTION_NAME v 5 True = Inr []
               \<longrightarrow> (\<exists>answer. fst (ask_route st env' request question) =
                      Inr (TemplateResponse ''home.html''
                             [(''request'', CtxRequest request), (''user'', CtxStr user),
                              (''question'', CtxStr question), (''answer'', CtxStr answer),
                              (''sources'', CtxList [])])))"
proof -
  have run: "ask_route st env request question =
      (Inl (Unhandled e), [Encode question, Search COLLECTION_NAME v 5 True])"
    using assms by (simp add: ask_route_def ask_def)
  have no_matches: "\<exists>answer. fst (ask_route st env' request question) =
        Inr (TemplateResponse ''home.html''
               [(''request'', CtxRequest request), (''user'', CtxStr user),
                (''question'', CtxStr question), (''answer'', CtxStr answer),
                (''sources'', CtxList [])])"
    if "encode env' question = Inr v \<and> search env' COLLECTION_NAME v 5 True = Inr []"
    for env' :: "('v, 's) collaborators"
    using that assms(1) by (simp add: ask_route_def ask_completed)
  from run no_matches show ?thesis by simp
qed

theorem ask_index_unreachable_witness:
  "get_current_user admin_logged_in admin_request = Inr ''admin''
   \<and> encode index_down_env ''What is consent?'' = Inr [16]
   \<and> search index_down_env COLLECTION_NAME [16] 5 True = Inl (Exception ''Connection refused'')
   \<and> ask_route admin_logged_in index_down_env admin_request ''What is consent?'' =
         (Inl (Unhandled (Exception ''Connection refused'')),
          [Encode ''What is consent?'', Search COLLECTION_NAME [16] 5 True])
   \<and> status_code (fst (ask_route admin_logged_in index_down_env admin_request
                             ''What is consent?'')) = 500"
proof -
  have e: "encode index_down_env ''What is consent?'' = Inr [16]"
    by (simp add: index_down_env_def sample_env_def)
  have s: "search index_down_env COLLECTION_NAME [16] 5 True
      = Inl (Exception ''Connection refused'')"
    by (simp add: index_down_env_def sample_env_def)
  show ?thesis
    using ask_index_unreachable [OF admin_authenticated e s]
      admin_authenticated e s
    by simp
qed

text \<open>
  At a question that the form binding hands on, the request is the route of the theorems
  above.
\<close>

lemma ask_request_bound:
  assumes "bind_form empty_is_missing submitted = Some question"
  shows "ask_request empty_is_missing st env request submitted = ask_route st env request question"
  using assms by (simp add: ask_request_def ask_route_def split: sum.splits)




subsection \<open>Signup and login\<close>

text \<open>
  C5. A signup with a username that is already registered ends in the signup page with
  the "Username already exists" error, sets no cookie, and returns the state as it was:
  the stored secret of that user and the session registry are the ones before.
\<close>

theorem signup_duplicate_user:
  assumes "VALID_USERS st username \<noteq> None"
  shows "signup st request username password =
           (Inr (TemplateResponse ''signup.html''
                   [(''request'', CtxRequest request), (''error'', CtxStr signup_error)]), st)
         \<and> VALID_USERS (snd (signup st request username password)) = VALID_USERS st
         \<and> VALID_USERS (snd (signup st request username password)) username
             = VALID_USERS st username
         \<and> sessions (snd (signup st request username password)) = sessions st
         \<and> cookie_ops (fst (signup st request username password)) = []"
  using assms by (simp add: signup_def)

theorem signup_duplicate_user_witness:
  "VALID_USERS initial_state ''admin'' \<noteq> None
   \<and> signup initial_state \<lparr>cookies = Map.empty\<rparr> ''admin'' ''letmein'' =
         (Inr (TemplateResponse ''signup.html''
                 [(''request'', CtxRequest \<lparr>cookies = Map.empty\<rparr>),
                  (''error'', CtxStr signup_error)]),
          initial_state)
   \<and> VALID_USERS (snd (signup initial_state \<lparr>cookies = Map.empty\<rparr> ''admin'' ''letmein''))
         ''admin'' = Some ''admin123''
   \<and> sessions (snd (signup initial_state \<lparr>cookies = Map.empty\<rparr> ''admin'' ''letmein''))
         ''admin'' = None"
proof -
  have h: "VALID_USERS initial_state ''admin'' \<noteq> None"
    by (simp add: initial_state_def)
  show ?thesis
    using h signup_duplicate_user [OF h, of "\<lparr>cookies = Map.empty\<rparr>" "''letmein''"]
    by (simp add: initial_state_def)
qed

text \<open>
  C6. A login whose username is not registered, or whose password is not the stored one,
  ends in the login page with the "Invalid credentials" error, sets no cookie, and returns
  the state as it was: the session registry is unchanged.
\<close>

theorem login_rejected_no_session:
  assumes "VALID_USERS st username = None \<or> (\<exists>secret. VALID_USERS st username = Some secret \<and> secret \<noteq> password)"
  shows "login st request username password =
           (Inr (TemplateResponse ''login.html''
                   [(''request'', CtxRequest request), (''error'', CtxStr login_error)]), st)
         \<and> sessions (snd (login st request username password)) = sessions st
         \<and> cookie_ops (fst (login st request username password)) = []"
  using assms by (auto simp add: login_def)

theorem login_rejected_no_session_witness:
  "(\<exists>secret. VALID_USERS initial_state ''admin'' = Some secret \<and> secret \<noteq> ''wrong'')
   \<and> VALID_USERS initial_state ''mallory'' = None
   \<and> sessions (snd (login initial_state \<lparr>cookies = Map.empty\<rparr> ''admin'' ''wrong'')) = Map.empty
   \<and> sessions (snd (login initial_state \<lparr>cookies = Map.empty\<rparr> ''mallory'' ''admin123'')) = Map.empty
   \<and> cookie_ops (fst (login initial_state \<lparr>cookies = Map.empty\<rparr> ''admin'' ''wrong'')) = []
   \<and> cookie_ops (fst (login initial_state \<lparr>cookies = Map.empty\<rparr> ''mallory'' ''admin123'')) = []"
proof -
  have a: "\<exists>secret. VALID_USERS initial_state ''admin'' = Some secret \<and> secret \<noteq> ''wrong''"
    by (simp add: initial_state_def)
  have m: "VALID_USERS initial_state ''mallory'' = None"
    by (simp add: initial_state_def)
  have s0: "sessions initial_state = Map.empty"
    by (simp add: initial_state_def)
  from a have "VALID_USERS initial_state ''admin'' = None
      \<or> (\<exists>secret. VALID_USERS initial_state ''admin'' = Some secret \<and> secret \<noteq> ''wrong'')" ..
  note r1 = login_rejected_no_session [OF this, of "\<lparr>cookies = Map.empty\<rparr>"]
  from m have "VALID_USERS initial_state ''mallory'' = None
      \<or> (\<exists>secret. VALID_USERS initial_state ''mallory'' = Some secret \<and> secret \<noteq> ''admin123'')" ..
  note r2 = login_rejected_no_session [OF this, of "\<lparr>cookies = Map.empty\<rparr>"]
  show ?thesis
    using a m s0 r1 r2 by simp
qed

subsection \<open>The session registry\<close>

lemma login_session_inv: "session_inv st \<Longrightarrow> session_inv (snd (login st request username password))"
  by (auto simp add: session_inv_def login_def)

lemma signup_session_inv: "session_inv st \<Longrightarrow> session_inv (snd (signup st request username password))"
  by (auto simp add: session_inv_def signup_def)

lemma logout_session_inv: "session_inv st \<Longrightarrow> session_inv (snd (logout st request))"
  by (auto simp add: session_inv_def logout_def split: option.splits)

lemma initial_session_inv: "session_inv initial_state"
  by (simp add: session_inv_def initial_state_def)

text \<open>
  C7. Every key of \<^verbatim>\<open>sessions\<close> is a key of \<^verbatim>\<open>VALID_USERS\<close>: this holds of the two
  dictionaries as the module creates them, and login, signup and logout each return a
  state where it holds when it held of the state they were given. Under it, a user with
  a session has exactly one stored secret.
\<close>

theorem session_inv_preserved:
  "session_inv initial_state
   \<and> (session_inv st \<longrightarrow>
        session_inv (snd (login st request username password))
        \<and> session_inv (snd (signup st request username password))
        \<and> session_inv (snd (logout st request))
        \<and> (\<forall>u. sessions st u \<noteq> None \<longrightarrow> (\<exists>!secret. VALID_USERS st u = Some secret)))"
proof -
  have "\<exists>!secret. VALID_USERS st u = Some secret" if "session_inv st" and "sessions st u \<noteq> None" for u
  proof -
    from that have "u \<in> dom (VALID_USERS st)"
      by (auto simp add: session_inv_def)
    then show ?thesis by auto
  qed
  then show ?thesis
    using initial_session_inv login_session_inv signup_session_inv logout_session_inv
    by blast
qed

theorem session_inv_preserved_witness:
  "session_inv initial_state
   \<and> session_inv admin_logged_in
   \<and> sessions admin_logged_in ''admin'' = Some True
   \<and> session_inv (snd (login admin_logged_in admin_request ''bob'' ''pw''))
   \<and> session_inv (snd (signup admin_logged_in admin_request ''bob'' ''pw''))
   \<and> sessions (snd (signup admin_logged_in admin_request ''bob'' ''pw'')) ''bob'' = Some True
   \<and> session_inv (snd (logout admin_logged_in admin_request))
   \<and> sessions (snd (logout admin_logged_in admin_request)) ''admin'' = None
   \<and> (\<exists>!secret. VALID_USERS admin_logged_in ''admin'' = Some secret)"
proof -
  note a = session_inv_preserved [of initial_state anonymous_request "''admin''" "''admin123''"]
  from a have init: "session_inv initial_state"
    by (rule conjunct1)
  from a init have inv: "session_inv admin_logged_in"
    by (simp add: admin_logged_in_def)
  note b = session_inv_preserved [of admin_logged_in admin_request "''bob''" "''pw''",
      THEN conjunct2, THEN mp, OF inv]
  from b have l: "session_inv (snd (login admin_logged_in admin_request ''bob'' ''pw''))"
    by (rule conjunct1)
  from b have s: "session_inv (snd (signup admin_logged_in admin_request ''bob'' ''pw''))"
    by (rule conjunct2 [THEN conjunct1])
  from b have o: "session_inv (snd (logout admin_logged_in admin_request))"
    by (rule conjunct2 [THEN conjunct2, THEN conjunct1])
  from b have u: "\<forall>u. sessions admin_logged_in u \<noteq> None
      \<longrightarrow> (\<exists>!secret. VALID_USERS admin_logged_in u = Some secret)"
    by (rule conjunct2 [THEN conjunct2, THEN conjunct2])
  have sa: "sessions admin_logged_in ''admin'' = Some True"
    by (simp add: admin_logged_in_eq)
  have ne: "sessions admin_logged_in ''admin'' \<noteq> None"
    by (simp add: sa)
  have e: "\<exists>!secret. VALID_USERS admin_logged_in ''admin'' = Some secret"
    by (rule u [rule_format, OF ne])
  have sb: "sessions (snd (signup admin_logged_in admin_request ''bob'' ''pw'')) ''bob'' = Some True"
    by (simp add: admin_logged_in_eq signup_def)
  have so: "sessions (snd (logout admin_logged_in admin_request)) ''admin'' = None"
    by (simp add: admin_logged_in_eq logout_def admin_request_def)
  from init inv sa l s sb o so e show ?thesis
    by (intro conjI)
qed

text \<open>
  C10. \<^verbatim>\<open>get_current_user\<close> returns \<open>u\<close> exactly when the \<^verbatim>\<open>username\<close> cookie is
  present with the value \<open>u\<close>, \<open>u\<close> is not empty and \<open>u\<close> is a key of \<^verbatim>\<open>sessions\<close>; in
  every other case it raises \<^verbatim>\<open>HTTPException(401, "Not authenticated")\<close>. Its result
  depends on the request through the value of that cookie alone, so once \<open>u\<close> has logged
  in, any request that carries the cookie \<^verbatim>\<open>username=u\<close> is authenticated as \<open>u\<close>.
\<close>

theorem get_current_user_cookie_only:
  "(get_current_user st request = Inr u
      \<longleftrightarrow> cookies request ''username'' = Some u \<and> u \<noteq> [] \<and> u \<in> dom (sessions st))
   \<and> (get_current_user st request = Inl (HTTPException 401 ''Not authenticated'')
      \<longleftrightarrow> \<not> (\<exists>w. cookies request ''username'' = Some w \<and> w \<noteq> [] \<and> w \<in> dom (sessions st)))
   \<and> (cookies request' ''username'' = cookies request ''username''
      \<longrightarrow> get_current_user st request' = get_current_user st request)
   \<and> (VALID_USERS st u = Some password \<and> u \<noteq> [] \<and> cookies request' ''username'' = Some u
      \<longrightarrow> get_current_user (snd (login st request u password)) request' = Inr u)"
  by (auto simp add: get_current_user_def login_def split: option.splits)

theorem get_current_user_cookie_only_witness:
  "get_current_user admin_logged_in admin_request = Inr ''admin''
   \<and> cookies admin_request ''username'' = Some ''admin''
   \<and> ''admin'' \<in> dom (sessions admin_logged_in)
   \<and> get_current_user initial_state admin_request = Inl (HTTPException 401 ''Not authenticated'')
   \<and> get_current_user admin_logged_in anonymous_request
       = Inl (HTTPException 401 ''Not authenticated'')
   \<and> VALID_USERS initial_state ''admin'' = Some ''admin123''
   \<and> get_current_user (snd (login initial_state anonymous_request ''admin'' ''admin123''))
         admin_request = Inr ''admin''"
proof -
  have c: "cookies admin_request ''username'' = Some ''admin''"
    by (simp add: admin_request_def)
  have n: "cookies anonymous_request ''username'' = None"
    by (simp add: anonymous_request_def)
  have d: "''admin'' \<in> dom (sessions admin_logged_in)"
    by (simp add: admin_logged_in_eq)
  have d0: "dom (sessions initial_state) = {}"
    by (simp add: initial_state_def)
  have v: "VALID_USERS initial_state ''admin'' = Some ''admin123''"
    by (simp add: initial_state_def)
  note g1 = get_current_user_cookie_only [of admin_logged_in admin_request "''admin''",
      THEN conjunct1]
  from g1 c d have r1: "get_current_user admin_logged_in admin_request = Inr ''admin''"
    by simp
  note g2 = get_current_user_cookie_only [of initial_state admin_request "''admin''",
      THEN conjunct2, THEN conjunct1]
  from g2 d0 have r2: "get_current_user initial_state admin_request
      = Inl (HTTPException 401 ''Not authenticated'')"
    by simp
  note g3 = get_current_user_cookie_only [of admin_logged_in anonymous_request "''admin''",
      THEN conjunct2, THEN conjunct1]
  from g3 n have r3: "get_current_user admin_logged_in anonymous_request
      = Inl (HTTPException 401 ''Not authenticated'')"
    by simp
  note g4 = get_current_user_cookie_only [of initial_state anonymous_request "''admin''"
      admin_request "''admin123''", THEN conjunct2, THEN conjunct2, THEN conjunct2]
  from g4 v c have r4: "get_current_user
      (snd (login initial_state anonymous_request ''admin'' ''admin123'')) admin_request
      = Inr ''admin''"
    by simp
  from r1 c d r2 r3 v r4 show ?thesis
    by (intro conjI)
qed

subsection \<open>The prompt\<close>



subsection \<open>The search\<close>

lemma length_insert_desc: "length (insert_desc x xs) = Suc (length xs)"
  by (induction xs) auto

lemma length_rank_desc: "length (rank_desc xs) = length xs"
  by (induction xs) (auto simp: rank_desc_def length_insert_desc)

lemma set_insert_desc: "set (insert_desc x xs) = insert x (set xs)"
  by (induction xs) auto

lemma non_increasing_insert_desc:
  "non_increasing xs \<Longrightarrow> non_increasing (insert_desc x xs)"
  by (induction xs) (auto simp: non_increasing_def set_insert_desc)

lemma non_increasing_Nil: "non_increasing []"
  by (simp add: non_increasing_def)

lemma non_increasing_rank_desc: "non_increasing (rank_desc xs)"
  by (induction xs) (simp_all add: rank_desc_def non_increasing_insert_desc non_increasing_Nil)

lemma length_index_search: "length (index_search similarity index q k) = min k (length index)"
  by (simp add: index_search_def length_rank_desc min.commute)

lemma non_increasing_index_search: "non_increasing (index_search similarity index q k)"
  using non_increasing_rank_desc [of "map (\<lambda>p. ScoredPoint (point_payload p)
         (similarity q (point_vector p))) index"]
  by (simp add: index_search_def non_increasing_def)

lemma ask_search_calls:
  assumes "encode env question = Inr v"
  shows "filter is_Search (snd (ask env request question user)) = [Search COLLECTION_NAME v 5 True]"
proof (cases "search env COLLECTION_NAME v 5 True")
  case (Inl e)
  with assms show ?thesis by (simp add: ask_def)
next
  case (Inr results)
  with assms show ?thesis by (simp add: ask_completed)
qed

text \<open>
  C8. A request to /ask that reaches the retrieval calls the search once, with the
  collection \<^verbatim>\<open>vdpo_documents\<close>, the vector of the question, \<^verbatim>\<open>limit=5\<close> and
  \<^verbatim>\<open>with_payload=True\<close>. The search of the index as the spec describes it returns
  \<open>min k n\<close> fragments from an index of \<open>n\<close> entries, so at most \<open>k\<close>, with scores that
  do not increase along the result; with that index behind the handler, the sources shown
  are the provenance lines of the fragments the search returns for \<open>k = 5\<close>.
\<close>

theorem ask_requests_five_ranked:
  fixes env :: "('v, 's::linorder) collaborators" and similarity :: "'v \<Rightarrow> 'v \<Rightarrow> 's"
  shows "(get_current_user st request = Inr user \<and> encode env question = Inr v \<longrightarrow>
            filter is_Search (snd (ask_route st env request question))
              = [Search COLLECTION_NAME v 5 True])
         \<and> length (index_search similarity index q k) \<le> k
         \<and> length (index_search similarity index q k) = min k (length index)
         \<and> non_increasing (index_search similarity index q k)
         \<and> (get_current_user st request = Inr user \<and> encode env question = Inr v \<longrightarrow>
              (\<exists>answer. fst (ask_route st (with_index similarity index env) request question) =
                 Inr (TemplateResponse ''home.html''
                        [(''request'', CtxRequest request), (''user'', CtxStr user),
                         (''question'', CtxStr question), (''answer'', CtxStr answer),
                         (''sources'', CtxList (map (source_line (format_4f env))
                                                  (index_search similarity index v 5)))])))"
proof -
  have calls: "filter is_Search (snd (ask_route st env request question))
      = [Search COLLECTION_NAME v 5 True]"
    if "get_current_user st request = Inr user" and "encode env question = Inr v"
    using that by (simp add: ask_route_def ask_search_calls)
  have served: "\<exists>answer. fst (ask_route st (with_index similarity index env) request question) =
      Inr (TemplateResponse ''home.html''
             [(''request'', CtxRequest request), (''user'', CtxStr user),
              (''question'', CtxStr question), (''answer'', CtxStr answer),
              (''sources'', CtxList (map (source_line (format_4f env))
                                       (index_search similarity index v 5)))])"
    if auth: "get_current_user st request = Inr user" and enc: "encode env question = Inr v"
  proof -
    have e: "encode (with_index similarity index env) question = Inr v"
      using enc by (simp add: with_index_def)
    have s: "search (with_index similarity index env) COLLECTION_NAME v 5 True
        = Inr (index_search similarity index v 5)"
      by (simp add: with_index_def)
    have f: "format_4f (with_index similarity index env) = format_4f env"
      by (simp add: with_index_def)
    show ?thesis
      using auth by (simp add: ask_route_def ask_completed [OF e s] f)
  qed
  have "length (index_search similarity index q k) \<le> k"
    by (simp add: length_index_search)
  with calls served show ?thesis
    by (simp add: length_index_search non_increasing_index_search)
qed

theorem ask_requests_five_ranked_witness:
  "get_current_user admin_logged_in admin_request = Inr ''admin''
   \<and> encode (with_index sample_similarity sample_index sample_env) ''What is consent?'' = Inr [16]
   \<and> filter is_Search
         (snd (ask_route admin_logged_in (with_index sample_similarity sample_index sample_env)
                 admin_request ''What is consent?''))
       = [Search COLLECTION_NAME [16] 5 True]
   \<and> map score (index_search sample_similarity sample_index [16] 5) = [91, 87, 80]
   \<and> map score (index_search sample_similarity sample_index [16] 2) = [91, 87]
   \<and> length (index_search sample_similarity sample_index [16] 5) = 3
   \<and> non_increasing (index_search sample_similarity sample_index [16] 5)"
proof -
  have e: "encode (with_index sample_similarity sample_index sample_env) ''What is consent?''
      = Inr [16]"
    by (simp add: with_index_def sample_env_def)
  note t = ask_requests_five_ranked [where st = admin_logged_in and request = admin_request
      and user = "''admin''" and env = "with_index sample_similarity sample_index sample_env"
      and question = "''What is consent?''" and v = "[16]" and similarity = sample_similarity
      and index = sample_index and q = "[16]" and k = 5]
  from t admin_authenticated e have c: "filter is_Search
         (snd (ask_route admin_logged_in (with_index sample_similarity sample_index sample_env)
                 admin_request ''What is consent?''))
       = [Search COLLECTION_NAME [16] 5 True]"
    by blast
  from t have n: "non_increasing (index_search sample_similarity sample_index [16] 5)"
    by blast
  from t have "length (index_search sample_similarity sample_index [16] 5)
      = min 5 (length sample_index)"
    by blast
  then have l: "length (index_search sample_similarity sample_index [16] 5) = 3"
    by (simp add: sample_index_def)
  have s5: "map score (index_search sample_similarity sample_index [16] 5) = [91, 87, 80]"
    by (simp add: index_search_def rank_desc_def sample_index_def sample_similarity_def)
  have s2: "map score (index_search sample_similarity sample_index [16] 2) = [91, 87]"
    by (simp add: index_search_def rank_desc_def sample_index_def sample_similarity_def)
  from admin_authenticated e c s5 s2 l n show ?thesis
    by (intro conjI)
qed

end
